theory Spec2Isabelle
  imports Complex_Main "HOL-Library.Word"
begin

section \<open>Scalars\<close>

text \<open>
  Modelled from the spec: the type \<^verbatim>\<open>real_t\<close> over which \<^verbatim>\<open>geometry.hh\<close> computes is
  declared in \<^verbatim>\<open>common.hh\<close>, which is not among the sources. The spec describes it as a
  floating-point real number whose precision is fixed at build time, single or double;
  it is modelled as IEEE 754 double precision (binary64): a value is a real number, plus or
  minus infinity, or not-a-number, and every arithmetic operation rounds its exact result
  to the nearest binary64 number, ties to even, with gradual underflow and with overflow
  to infinity. The operations take any real number as an argument, so that an input need
  not be a binary64 number itself. The sign of zero is not modelled (a division of a
  non-zero number by zero gives the infinity with the sign of the numerator).
\<close>

datatype real_t = Fin real | PInf | NInf | NaN

fun inf_of_sign :: "real \<Rightarrow> real_t" where
  "inf_of_sign s = (if 0 < s then PInf else if s < 0 then NInf else NaN)"

text \<open>Rounding to the nearest integer, ties to the even one.\<close>

definition round_half_even :: "real \<Rightarrow> int" where
  "round_half_even t =
     (let f = \<lfloor>t\<rfloor>; r = t - of_int f
      in if r < 1 / 2 then f else if 1 / 2 < r then f + 1 else if even f then f else f + 1)"

text \<open>
  The binade of a magnitude \<open>a\<close>, the exponent \<open>k\<close> with \<open>2\<^sup>k \<le> a < 2\<^sup>k\<^sup>+\<^sup>1\<close>, found by
  bisection between \<open>lo\<close> and \<open>hi\<close>.
\<close>

fun binade_search :: "nat \<Rightarrow> int \<Rightarrow> int \<Rightarrow> real \<Rightarrow> int" where
  "binade_search 0 lo hi a = lo"
| "binade_search (Suc n) lo hi a =
     (let mid = (lo + hi) div 2
      in if 2 powi mid \<le> a then binade_search n mid hi a else binade_search n lo mid a)"

text \<open>
  The exponent of the unit in the last place of a binary64 number of the magnitude of
  \<open>u\<close>: 52 below the binade of \<open>u\<close>, and \<open>-1074\<close> throughout the subnormal range, whose
  numbers lie below the binade \<open>-1022\<close>. Eleven steps of bisection cover the binades of
  binary64 and two more above them, where every magnitude overflows.
\<close>

definition ulp_exponent :: "real \<Rightarrow> int" where
  "ulp_exponent u = binade_search 11 (- 1022) 1026 \<bar>u\<bar> - 52"

definition rounded_magnitude :: "real \<Rightarrow> real" where
  "rounded_magnitude u =
     of_int (round_half_even (\<bar>u\<bar> / 2 powi ulp_exponent u)) * 2 powi ulp_exponent u"

text \<open>
  The binary64 value of an exact result: a magnitude that rounds to \<^verbatim>\<open>2^1024\<close> or more
  overflows.
\<close>

definition round64 :: "real \<Rightarrow> real_t" where
  "round64 u =
     (if u = 0 then Fin 0
      else if 2 ^ 1024 \<le> rounded_magnitude u then inf_of_sign u
      else Fin (sgn u * rounded_magnitude u))"

fun rt_sign :: "real_t \<Rightarrow> real" where
  "rt_sign (Fin a) = sgn a"
| "rt_sign PInf = 1"
| "rt_sign NInf = - 1"
| "rt_sign NaN = 0"

fun rt_neg :: "real_t \<Rightarrow> real_t" where
  "rt_neg (Fin a) = Fin (- a)"
| "rt_neg PInf = NInf"
| "rt_neg NInf = PInf"
| "rt_neg NaN = NaN"

fun rt_add :: "real_t \<Rightarrow> real_t \<Rightarrow> real_t" where
  "rt_add (Fin a) (Fin b) = round64 (a + b)"
| "rt_add NaN _ = NaN"
| "rt_add _ NaN = NaN"
| "rt_add PInf NInf = NaN"
| "rt_add NInf PInf = NaN"
| "rt_add PInf _ = PInf"
| "rt_add _ PInf = PInf"
| "rt_add NInf _ = NInf"
| "rt_add _ NInf = NInf"

definition rt_sub :: "real_t \<Rightarrow> real_t \<Rightarrow> real_t" where
  "rt_sub a b = rt_add a (rt_neg b)"

fun rt_mul :: "real_t \<Rightarrow> real_t \<Rightarrow> real_t" where
  "rt_mul (Fin a) (Fin b) = round64 (a * b)"
| "rt_mul NaN _ = NaN"
| "rt_mul _ NaN = NaN"
| "rt_mul a b = inf_of_sign (rt_sign a * rt_sign b)"

fun rt_div :: "real_t \<Rightarrow> real_t \<Rightarrow> real_t" where
  "rt_div NaN _ = NaN"
| "rt_div _ NaN = NaN"
| "rt_div (Fin a) (Fin b) = (if b = 0 then inf_of_sign a else round64 (a / b))"
| "rt_div (Fin a) _ = Fin 0"
| "rt_div a (Fin b) = inf_of_sign (rt_sign a * (if b < 0 then - 1 else 1))"
| "rt_div _ _ = NaN"

fun rt_sqrt :: "real_t \<Rightarrow> real_t" where
  "rt_sqrt (Fin a) = (if a < 0 then NaN else round64 (sqrt a))"
| "rt_sqrt PInf = PInf"
| "rt_sqrt NInf = NaN"
| "rt_sqrt NaN = NaN"

fun rt_fabs :: "real_t \<Rightarrow> real_t" where
  "rt_fabs (Fin a) = Fin \<bar>a\<bar>"
| "rt_fabs PInf = PInf"
| "rt_fabs NInf = PInf"
| "rt_fabs NaN = NaN"

fun rt_lt :: "real_t \<Rightarrow> real_t \<Rightarrow> bool" where
  "rt_lt (Fin a) (Fin b) = (a < b)"
| "rt_lt NaN _ = False"
| "rt_lt _ NaN = False"
| "rt_lt _ NInf = False"
| "rt_lt PInf _ = False"
| "rt_lt _ _ = True"

fun rt_ge :: "real_t \<Rightarrow> real_t \<Rightarrow> bool" where
  "rt_ge (Fin a) (Fin b) = (b \<le> a)"
| "rt_ge NaN _ = False"
| "rt_ge _ NaN = False"
| "rt_ge PInf _ = True"
| "rt_ge _ NInf = True"
| "rt_ge _ _ = False"

fun rt_isfinite :: "real_t \<Rightarrow> bool" where
  "rt_isfinite (Fin a) = True"
| "rt_isfinite _ = False"

text \<open>\<^verbatim>\<open>std::isnormal\<close>: finite, not zero and not subnormal.\<close>

fun rt_isnormal :: "real_t \<Rightarrow> bool" where
  "rt_isnormal (Fin a) = (1 / 2 ^ 1022 \<le> \<bar>a\<bar>)"
| "rt_isnormal _ = False"

text \<open>
  Modelled from the spec: the scalar helper \<^verbatim>\<open>::sqr\<close> of \<^verbatim>\<open>common.hh\<close>, which is not
  among the sources; the spec lists it as \<^verbatim>\<open>square(x)\<close>.
\<close>

definition sqr_scalar :: "real_t \<Rightarrow> real_t" where
  "sqr_scalar a = rt_mul a a"

text \<open>
  Modelled from the spec: the macro \<^verbatim>\<open>m_assert\<close> of the missing debug header aborts the
  process when its condition is false. A function that asserts returns an option and
  \<open>None\<close> is the abort.
\<close>

definition m_assert :: "bool \<Rightarrow> 'a option \<Rightarrow> 'a option" where
  "m_assert ok k = (if ok then k else None)"

text \<open>
  The constant \<^verbatim>\<open>EPS\<close> is declared in \<^verbatim>\<open>common.hh\<close> too. Every function that reads it
  takes it as its first argument \<open>eps\<close>, a finite number.
\<close>

type_synonym int32 = "32 word"

definition std_max :: "int32 \<Rightarrow> int32 \<Rightarrow> int32" where
  "std_max a b = (if a <s b then b else a)"

definition std_min :: "int32 \<Rightarrow> int32 \<Rightarrow> int32" where
  "std_min a b = (if b <s a then b else a)"

text \<open>The conversion \<^verbatim>\<open>(real_t)\<close> of an \<^verbatim>\<open>int\<close>.\<close>

definition to_real_t :: "int32 \<Rightarrow> real_t" where
  "to_real_t a = round64 (real_of_int (sint a))"

section \<open>Geometry\<close>

record Geometry =
  w :: int32
  h :: int32

text \<open>Signed overflow of \<^verbatim>\<open>w * h\<close> is undefined behaviour: \<open>None\<close>.\<close>

definition area :: "Geometry \<Rightarrow> int32 option" where
  "area g = (let p = sint (w g) * sint (h g)
             in if - (2 ^ 31) \<le> p \<and> p < 2 ^ 31 then Some (w g * h g) else None)"

definition ratio :: "Geometry \<Rightarrow> real_t" where
  "ratio g = rt_div (to_real_t (std_max (w g) (h g))) (to_real_t (std_min (w g) (h g)))"

definition contain :: "Geometry \<Rightarrow> int32 \<Rightarrow> int32 \<Rightarrow> bool" where
  "contain g a b = (0 \<le>s a \<and> a <s w g \<and> 0 \<le>s b \<and> b <s h g)"

section \<open>Vector\<close>

record Vector =
  x :: real_t
  y :: real_t
  z :: real_t

text \<open>
  The constructor \<^verbatim>\<open>Vector(m_x = 0, m_y = 0, m_z = 0)\<close>, called with three arguments and
  with two; with two, the third member takes the default 0.
\<close>

definition Vector_xyz :: "real_t \<Rightarrow> real_t \<Rightarrow> real_t \<Rightarrow> Vector" where
  "Vector_xyz a b c = \<lparr>x = a, y = b, z = c\<rparr>"

definition Vector_xy :: "real_t \<Rightarrow> real_t \<Rightarrow> Vector" where
  "Vector_xy a b = Vector_xyz a b (Fin 0)"

text \<open>The constructor \<^verbatim>\<open>Vector(p0, p1)\<close>.\<close>

definition Vector_from :: "Vector \<Rightarrow> Vector \<Rightarrow> Vector" where
  "Vector_from p0 p1 =
     \<lparr>x = rt_sub (x p1) (x p0), y = rt_sub (y p1) (y p0), z = rt_sub (z p1) (z p0)\<rparr>"

definition index :: "Vector \<Rightarrow> int32 \<Rightarrow> real_t" where
  "index v c = (if c = 0 then x v else if c = 1 then y v else z v)"

text \<open>
  The overload \<^verbatim>\<open>real_t& index(int c)\<close> returns a reference to a member of the vector. A
  reference is the name of the member; \<open>deref\<close> reads through it and \<open>assign\<close> writes.
\<close>

datatype member = Member_x | Member_y | Member_z

definition index_ref :: "int32 \<Rightarrow> member" where
  "index_ref c = (if c = 0 then Member_x else if c = 1 then Member_y else Member_z)"

fun deref :: "Vector \<Rightarrow> member \<Rightarrow> real_t" where
  "deref v Member_x = x v"
| "deref v Member_y = y v"
| "deref v Member_z = z v"

fun assign :: "Vector \<Rightarrow> member \<Rightarrow> real_t \<Rightarrow> Vector" where
  "assign v Member_x a = v\<lparr>x := a\<rparr>"
| "assign v Member_y a = v\<lparr>y := a\<rparr>"
| "assign v Member_z a = v\<lparr>z := a\<rparr>"

definition sqr :: "Vector \<Rightarrow> real_t" where
  "sqr v = rt_add (rt_add (rt_mul (x v) (x v)) (rt_mul (y v) (y v))) (rt_mul (z v) (z v))"

definition mod_v :: "Vector \<Rightarrow> real_t" where
  "mod_v v = rt_sqrt (sqr v)"

definition dot :: "Vector \<Rightarrow> Vector \<Rightarrow> real_t" where
  "dot u v = rt_add (rt_add (rt_mul (x u) (x v)) (rt_mul (y u) (y v))) (rt_mul (z u) (z v))"

text \<open>\<^verbatim>\<open>operator +\<close>, binary \<^verbatim>\<open>operator -\<close>, \<^verbatim>\<open>operator * (real_t)\<close> and \<^verbatim>\<open>operator ==\<close>.\<close>

definition op_add :: "Vector \<Rightarrow> Vector \<Rightarrow> Vector" where
  "op_add u v = Vector_xyz (rt_add (x u) (x v)) (rt_add (y u) (y v)) (rt_add (z u) (z v))"

definition op_sub :: "Vector \<Rightarrow> Vector \<Rightarrow> Vector" where
  "op_sub u v = Vector_xyz (rt_sub (x u) (x v)) (rt_sub (y u) (y v)) (rt_sub (z u) (z v))"

definition op_mul :: "Vector \<Rightarrow> real_t \<Rightarrow> Vector" where
  "op_mul u p = Vector_xyz (rt_mul (x u) p) (rt_mul (y u) p) (rt_mul (z u) p)"

definition op_eq :: "real \<Rightarrow> Vector \<Rightarrow> Vector \<Rightarrow> bool" where
  "op_eq eps u v =
     (rt_lt (rt_fabs (rt_sub (x u) (x v))) (Fin eps) \<and>
      rt_lt (rt_fabs (rt_sub (y u) (y v))) (Fin eps) \<and>
      rt_lt (rt_fabs (rt_sub (z u) (z v))) (Fin eps))"

text \<open>
  \<^verbatim>\<open>normalize\<close> scales the vector in place (\<^verbatim>\<open>*this *= m\<close>, the same products as
  \<^verbatim>\<open>operator *\<close>) and then asserts on the factor; the vector after the call is returned,
  \<open>None\<close> when the assertion aborts.
\<close>

definition normalize :: "Vector \<Rightarrow> Vector option" where
  "normalize v =
     (let m = rt_div (Fin 1) (mod_v v);
          v' = op_mul v m
      in m_assert (rt_isnormal m) (Some v'))"

definition get_normalized :: "Vector \<Rightarrow> Vector option" where
  "get_normalized v = normalize v"

definition infinity :: Vector where
  "infinity = Vector_xy PInf PInf"

definition isnoraml :: "Vector \<Rightarrow> bool" where
  "isnoraml v = (rt_isfinite (x v) \<and> rt_isfinite (y v) \<and> rt_isfinite (z v))"

text \<open>\<^verbatim>\<open>reflection\<close>: the first argument is \<^verbatim>\<open>*this\<close>.\<close>

definition reflection :: "real \<Rightarrow> Vector \<Rightarrow> Vector \<Rightarrow> Vector option" where
  "reflection eps this v =
     m_assert (rt_lt (rt_fabs (rt_sub (sqr v) (Fin 1))) (Fin eps) \<and>
               rt_lt (rt_sub (sqr this) (Fin 1)) (Fin eps))
       (Some (op_sub (op_mul (op_mul this (Fin 2)) (dot this v)) v))"

text \<open>\<^verbatim>\<open>transmission\<close>: the first argument is \<^verbatim>\<open>*this\<close>, the surface normal.\<close>

definition transmission :: "real \<Rightarrow> Vector \<Rightarrow> Vector \<Rightarrow> real_t \<Rightarrow> Vector option" where
  "transmission eps this v_in density =
     (let ret = infinity;
          density = rt_div (Fin 1) density;
          cos1 = rt_neg (dot this v_in)
      in if rt_lt cos1 (Fin eps) then Some ret
         else m_assert (rt_ge cos1 (Fin 0))
           (let cos2 = rt_sub (Fin 1)
                         (rt_mul (sqr_scalar density) (rt_sub (Fin 1) (sqr_scalar cos1)))
            in if rt_lt cos2 (Fin 0) then Some ret
               else let cos2 = rt_sqrt cos2;
                        ret = op_add (op_mul v_in density)
                                (op_mul this (rt_sub (rt_mul density cos1) cos2))
                    in get_normalized ret))"


text \<open>
  The two conditions under which \<^verbatim>\<open>transmission\<close> returns its first value of \<^verbatim>\<open>ret\<close>,
  as the code computes them: \<^verbatim>\<open>cos1 < EPS\<close>, and \<^verbatim>\<open>cos2 < 0\<close> before the square root.
\<close>

definition grazing_or_exiting :: "real \<Rightarrow> Vector \<Rightarrow> Vector \<Rightarrow> bool" where
  "grazing_or_exiting eps this v_in = rt_lt (rt_neg (dot this v_in)) (Fin eps)"

definition total_internal_reflection :: "Vector \<Rightarrow> Vector \<Rightarrow> real_t \<Rightarrow> bool" where
  "total_internal_reflection this v_in density =
     rt_lt (rt_sub (Fin 1)
              (rt_mul (sqr_scalar (rt_div (Fin 1) density))
                 (rt_sub (Fin 1) (sqr_scalar (rt_neg (dot this v_in))))))
           (Fin 0)"

section \<open>The specification's formulas\<close>

text \<open>
  The specification states what \<^verbatim>\<open>reflection\<close> and \<^verbatim>\<open>transmission\<close> return as formulas
  of vector algebra. They are written here in the specification's words, over the
  operations of \<^verbatim>\<open>real_t\<close>, to be compared with what the code computes.
\<close>








text \<open>Vectors with given finite components, for concrete inputs.\<close>

type_synonym triple = "real \<times> real \<times> real"

fun of_triple :: "triple \<Rightarrow> Vector" where
  "of_triple (a, b, c) = Vector_xyz (Fin a) (Fin b) (Fin c)"

section \<open>Rounding\<close>

lemma round_half_even_of_int: "round_half_even (of_int k) = k"
  by (simp add: round_half_even_def)

lemma round_half_even_error: "\<bar>of_int (round_half_even t) - t\<bar> \<le> 1 / 2"
  unfolding round_half_even_def Let_def by (auto; linarith)

lemma round_half_even_ge: "of_int k \<le> t \<Longrightarrow> k \<le> round_half_even t"
proof -
  assume "of_int k \<le> t"
  then have "k \<le> \<lfloor>t\<rfloor>" by (simp add: le_floor_iff)
  then show ?thesis unfolding round_half_even_def Let_def by auto
qed


lemma two_powi: "(2::real) powi k = 2 powr of_int k"
  by (simp add: powr_real_of_int')

lemma binade_search_inv:
  assumes "hi - lo = 2 ^ n"
    and "lo = L \<or> 2 powr of_int lo \<le> a"
    and "hi = H \<or> a < 2 powr of_int hi"
  shows "lo \<le> binade_search n lo hi a \<and> binade_search n lo hi a < hi \<and>
         (binade_search n lo hi a = L \<or> 2 powr of_int (binade_search n lo hi a) \<le> a) \<and>
         (binade_search n lo hi a + 1 = H \<or> a < 2 powr of_int (binade_search n lo hi a + 1))"
  using assms
proof (induction n arbitrary: lo hi)
  case 0
  then have "hi = lo + 1" by simp
  with 0 show ?case by simp
next
  case (Suc n)
  define mid where "mid = (lo + hi) div 2"
  have mid: "mid - lo = 2 ^ n" "hi - mid = 2 ^ n"
    using Suc.prems(1) by (simp_all add: mid_def)
  have "(0::int) < 2 ^ n" by simp
  then have ord: "lo < mid" "mid < hi" using mid by linarith+
  show ?case
  proof (cases "2 powr of_int mid \<le> a")
    case True
    then have s: "binade_search (Suc n) lo hi a = binade_search n mid hi a"
      by (simp add: mid_def two_powi)
    have "mid \<le> binade_search n mid hi a \<and> binade_search n mid hi a < hi \<and>
         (binade_search n mid hi a = L \<or> 2 powr of_int (binade_search n mid hi a) \<le> a) \<and>
         (binade_search n mid hi a + 1 = H \<or> a < 2 powr of_int (binade_search n mid hi a + 1))"
      using mid(2) True Suc.prems(3) by (intro Suc.IH) simp_all
    then show ?thesis
      using ord unfolding s by auto
  next
    case False
    then have s: "binade_search (Suc n) lo hi a = binade_search n lo mid a"
      by (simp add: mid_def two_powi)
    have "lo \<le> binade_search n lo mid a \<and> binade_search n lo mid a < mid \<and>
         (binade_search n lo mid a = L \<or> 2 powr of_int (binade_search n lo mid a) \<le> a) \<and>
         (binade_search n lo mid a + 1 = H \<or> a < 2 powr of_int (binade_search n lo mid a + 1))"
    proof (rule Suc.IH [OF mid(1) Suc.prems(2)])
      show "mid = H \<or> a < 2 powr of_int mid" using False by simp
    qed
    then show ?thesis
      using ord unfolding s by auto
  qed
qed

text \<open>
  The exponent found is the binade of the magnitude, within the range of binary64: from
  the subnormal numbers, whose unit in the last place is \<open>2\<^sup>-\<^sup>1\<^sup>0\<^sup>7\<^sup>4\<close>, up to magnitudes
  that overflow.
\<close>

lemma ulp_exponent_props:
  "- 1074 \<le> ulp_exponent u \<and> ulp_exponent u \<le> 973 \<and>
   (ulp_exponent u = - 1074 \<or> 2 powr (of_int (ulp_exponent u) + 52) \<le> \<bar>u\<bar>) \<and>
   (ulp_exponent u = 973 \<or> \<bar>u\<bar> < 2 powr (of_int (ulp_exponent u) + 53))"
proof -
  define k where "k = binade_search 11 (- 1022) 1026 \<bar>u\<bar>"
  have k: "- 1022 \<le> k \<and> k < 1026 \<and> (k = - 1022 \<or> 2 powr of_int k \<le> \<bar>u\<bar>) \<and>
        (k + 1 = 1026 \<or> \<bar>u\<bar> < 2 powr of_int (k + 1))"
    unfolding k_def by (rule binade_search_inv) simp_all
  have q: "ulp_exponent u = k - 52"
    by (simp add: ulp_exponent_def k_def)
  have e1: "of_int (k - 52) + 52 = (of_int k :: real)"
    by simp
  have e2: "of_int (k - 52) + 53 = (of_int (k + 1) :: real)"
    by simp
  have "- 1074 \<le> k - 52" "k - 52 \<le> 973" using k by simp_all
  moreover have "k - 52 = - 1074 \<or> 2 powr (of_int (k - 52) + 52) \<le> \<bar>u\<bar>"
    unfolding e1 using k by auto
  moreover have "k - 52 = 973 \<or> \<bar>u\<bar> < 2 powr (of_int (k - 52) + 53)"
    unfolding e2 using k by auto
  ultimately show ?thesis
    unfolding q by blast
qed

lemma ulp_exponent_eqI:
  assumes "2 powr of_int k \<le> \<bar>u\<bar>" "\<bar>u\<bar> < 2 powr (of_int k + 1)" "- 1022 \<le> k" "k \<le> 1024"
  shows "ulp_exponent u = k - 52"
proof -
  define q where "q = ulp_exponent u"
  have p: "- 1074 \<le> q" "q \<le> 973" "q = - 1074 \<or> 2 powr (of_int q + 52) \<le> \<bar>u\<bar>"
    "q = 973 \<or> \<bar>u\<bar> < 2 powr (of_int q + 53)"
    using ulp_exponent_props [of u] by (simp_all add: q_def)
  have "\<not> q + 52 < k"
  proof
    assume lt: "q + 52 < k"
    then have "q \<noteq> 973" using assms(4) by simp
    with p(4) have "\<bar>u\<bar> < 2 powr (of_int q + 53)" by simp
    also have "\<dots> \<le> 2 powr of_int k"
      using lt by (intro powr_mono) simp_all
    finally show False using assms(1) by simp
  qed
  moreover have "\<not> k < q + 52"
  proof
    assume lt: "k < q + 52"
    then have "q \<noteq> - 1074" using assms(3) by simp
    with p(3) have "2 powr (of_int q + 52) \<le> \<bar>u\<bar>" by simp
    moreover have "2 powr (of_int k + 1) \<le> (2::real) powr (of_int q + 52)"
      using lt by (intro powr_mono) simp_all
    ultimately show False using assms(2) by simp
  qed
  ultimately show ?thesis by (simp add: q_def)
qed

lemma rounded_magnitude_powr:
  "rounded_magnitude u =
     of_int (round_half_even (\<bar>u\<bar> / 2 powr of_int (ulp_exponent u))) *
       2 powr of_int (ulp_exponent u)"
  by (simp add: rounded_magnitude_def two_powi)

lemma rounded_magnitude_error:
  "\<bar>rounded_magnitude u - \<bar>u\<bar>\<bar> \<le> 2 powr of_int (ulp_exponent u) / 2"
proof -
  define p :: real where "p = 2 powr of_int (ulp_exponent u)"
  define n :: real where "n = of_int (round_half_even (\<bar>u\<bar> / p))"
  have p: "0 < p" by (simp add: p_def)
  have "\<bar>n - \<bar>u\<bar> / p\<bar> \<le> 1 / 2"
    unfolding n_def by (rule round_half_even_error)
  then have "\<bar>n - \<bar>u\<bar> / p\<bar> * p \<le> 1 / 2 * p"
    using p by (intro mult_right_mono) simp_all
  moreover have "\<bar>n - \<bar>u\<bar> / p\<bar> * p = \<bar>(n - \<bar>u\<bar> / p) * p\<bar>"
    using p by (simp add: abs_mult)
  moreover have "(n - \<bar>u\<bar> / p) * p = n * p - \<bar>u\<bar>"
    using p by (simp add: left_diff_distrib)
  ultimately have "\<bar>n * p - \<bar>u\<bar>\<bar> \<le> p / 2"
    by simp
  then show ?thesis
    unfolding rounded_magnitude_powr n_def p_def .
qed


lemma half_ulp_bound:
  "2 powr of_int (ulp_exponent u) / 2 \<le> \<bar>u\<bar> / 2 ^ 53 + 1 / 2 ^ 1075"
proof (cases "ulp_exponent u = - 1074")
  case True
  have "(2::real) powr of_int (- 1074) / 2 = 1 / 2 ^ 1075"
    by (simp add: powr_minus_divide)
  then show ?thesis by (simp add: True)
next
  case False
  then have lo: "2 powr (of_int (ulp_exponent u) + 52) \<le> \<bar>u\<bar>"
    using ulp_exponent_props [of u] by simp
  have "(2::real) powr of_int (ulp_exponent u) / 2 =
        2 powr (of_int (ulp_exponent u) + 52) / 2 ^ 53"
    by (simp add: powr_add)
  also have "\<dots> \<le> \<bar>u\<bar> / 2 ^ 53"
    using lo by (simp add: divide_right_mono)
  finally show ?thesis by simp
qed

lemma round64_error:
  assumes "round64 u = Fin v"
  shows "\<bar>v - u\<bar> \<le> \<bar>u\<bar> / 2 ^ 53 + 1 / 2 ^ 1075"
proof (cases "u = 0")
  case True
  then show ?thesis using assms by (simp add: round64_def)
next
  case False
  then have v: "v = sgn u * rounded_magnitude u"
    using assms by (simp add: round64_def split: if_splits)
  have "\<bar>v - u\<bar> = \<bar>rounded_magnitude u - \<bar>u\<bar>\<bar>"
  proof (cases "0 < u")
    case True
    then show ?thesis by (simp add: v)
  next
    case neg: False
    with False have "u < 0" by simp
    then show ?thesis by (simp add: v)
  qed
  then show ?thesis
    using rounded_magnitude_error [of u] half_ulp_bound [of u] by linarith
qed



lemma round64_finite:
  assumes "\<bar>u\<bar> < 2 ^ 1023"
  shows "\<exists>v. round64 u = Fin v"
proof (cases "u = 0")
  case True
  then show ?thesis by (simp add: round64_def)
next
  case False
  have "rounded_magnitude u \<le> \<bar>u\<bar> + (\<bar>u\<bar> / 2 ^ 53 + 1 / 2 ^ 1075)"
    using rounded_magnitude_error [of u] half_ulp_bound [of u] by linarith
  also have "\<dots> < 2 ^ 1023 + (2 ^ 1023 / 2 ^ 53 + 1 / 2 ^ 1075)"
    using assms by (simp add: add_strict_mono divide_strict_right_mono)
  also have "\<dots> < (2::real) ^ 1024" by simp
  finally show ?thesis using False by (simp add: round64_def)
qed

lemma round64_minus: "round64 (- u) = (case round64 u of Fin v \<Rightarrow> Fin (- v) | PInf \<Rightarrow> NInf | NInf \<Rightarrow> PInf | NaN \<Rightarrow> NaN)"
  by (simp add: round64_def rounded_magnitude_def ulp_exponent_def)


lemma ulp_exponent_le:
  assumes "\<bar>c\<bar> < 2 powr (of_int j + 53)" "- 1074 \<le> j"
  shows "ulp_exponent c \<le> j"
proof (cases "ulp_exponent c = - 1074")
  case True
  then show ?thesis using assms(2) by simp
next
  case False
  then have "2 powr (of_int (ulp_exponent c) + 52) \<le> \<bar>c\<bar>"
    using ulp_exponent_props [of c] by simp
  then have "2 powr (of_int (ulp_exponent c) + 52) < (2::real) powr (of_int j + 53)"
    using assms(1) by linarith
  then have "of_int (ulp_exponent c) + 52 < (of_int j + 53 :: real)"
    by simp
  then show ?thesis by linarith
qed

lemma rounded_magnitude_exact:
  assumes c: "c = of_int k * 2 powr of_int j" and q: "ulp_exponent c \<le> j"
  shows "rounded_magnitude c = \<bar>c\<bar>"
proof -
  define q where "q = ulp_exponent c"
  define d where "d = nat (j - q)"
  have d: "of_int j - of_int q = (real d)"
    using q by (simp add: d_def q_def)
  have "\<bar>c\<bar> / 2 powr of_int q = \<bar>of_int k\<bar> * (2 powr of_int j / 2 powr of_int q)"
    by (simp add: c abs_mult)
  also have "2 powr of_int j / 2 powr of_int q = (2::real) powr (of_int j - of_int q)"
    by (simp add: powr_diff)
  also have "\<dots> = 2 ^ d"
    by (simp only: d powr_realpow zero_less_numeral)
  finally have m: "\<bar>c\<bar> / 2 powr of_int q = of_int (\<bar>k\<bar> * 2 ^ d)"
    by simp
  have "rounded_magnitude c = of_int (\<bar>k\<bar> * 2 ^ d) * 2 powr of_int q"
    unfolding rounded_magnitude_powr q_def [symmetric] m round_half_even_of_int ..
  also have "\<dots> = \<bar>c\<bar> / 2 powr of_int q * 2 powr of_int q"
    by (simp only: m)
  also have "\<dots> = \<bar>c\<bar>"
    by simp
  finally show ?thesis .
qed

lemma round64_exact_powr:
  assumes c: "c = of_int k * 2 powr of_int j"
    and k: "\<bar>k\<bar> < 2 ^ 53" and j: "- 1074 \<le> j" "j \<le> 971"
  shows "round64 c = Fin c"
proof (cases "c = 0")
  case True
  then show ?thesis by (simp add: round64_def)
next
  case False
  have k': "\<bar>real_of_int k\<bar> < 2 ^ 53"
    using k by (metis of_int_abs of_int_less_numeral_power_cancel_iff)
  have "\<bar>c\<bar> = \<bar>of_int k\<bar> * 2 powr of_int j"
    by (simp add: c abs_mult)
  also have "\<dots> < 2 ^ 53 * 2 powr of_int j"
    using k' by (simp add: mult_strict_right_mono)
  finally have lt: "\<bar>c\<bar> < 2 ^ 53 * 2 powr of_int j" .
  have "(2::real) ^ 53 * 2 powr of_int j = 2 powr (of_int j + 53)"
    by (simp add: powr_add)
  with lt have "\<bar>c\<bar> < 2 powr (of_int j + 53)" by simp
  then have "ulp_exponent c \<le> j"
    using j(1) by (rule ulp_exponent_le)
  then have m: "rounded_magnitude c = \<bar>c\<bar>"
    using c by (rule rounded_magnitude_exact [rotated])
  have "(2::real) powr of_int j \<le> 2 powr 971"
    using j(2) by (intro powr_mono) simp_all
  then have "(2::real) ^ 53 * 2 powr of_int j \<le> 2 ^ 53 * 2 powr 971"
    by simp
  also have "\<dots> = (2::real) ^ 1024"
    by simp
  finally have "\<bar>c\<bar> < 2 ^ 1024" using lt by simp
  then show ?thesis
    using False by (simp add: round64_def m mult_sgn_abs)
qed

text \<open>Dyadic fractions with at most 53 significant bits are their own rounding.\<close>

lemma round64_exact:
  assumes "of_int k = c * 2 ^ n" "\<bar>k\<bar> < 2 ^ 53" "n \<le> 1074"
  shows "round64 c = Fin c"
proof -
  have "c = of_int k / 2 ^ n"
    using assms(1) by (simp add: field_simps)
  also have "\<dots> = of_int k * 2 powr of_int (- int n)"
    by (simp add: powr_minus_divide powr_realpow)
  finally have "c = of_int k * 2 powr of_int (- int n)" .
  then show ?thesis
    using assms(2,3) by (intro round64_exact_powr [of c k "- int n"]) simp_all
qed

lemma round64_exact_large:
  assumes "c = of_int k * 2 ^ n" "\<bar>k\<bar> < 2 ^ 53" "n \<le> 971"
  shows "round64 c = Fin c"
proof -
  have "c = of_int k * 2 powr of_int (int n)"
    using assms(1) by (simp add: powr_realpow)
  then show ?thesis
    using assms(2,3) by (intro round64_exact_powr [of c k "int n"]) simp_all
qed

lemma round64_0: "round64 0 = Fin 0"
  by (simp add: round64_def)

lemma round64_1: "round64 1 = Fin 1"
  by (rule round64_exact [of 1 1 0]) simp_all

lemma round64_2: "round64 2 = Fin 2"
  by (rule round64_exact [of 2 2 0]) simp_all

lemma round64_m1: "round64 (- 1) = Fin (- 1)"
  by (rule round64_exact [of "- 1" "- 1" 0]) simp_all


lemma round64_ge_1:
  assumes "1 \<le> u"
  shows "round64 u = PInf \<or> (\<exists>v. round64 u = Fin v \<and> 1 \<le> v)"
proof -
  have u: "u \<noteq> 0" "0 < u" "\<bar>u\<bar> = u" using assms by simp_all
  define q where "q = ulp_exponent u"
  have p: "q = - 1074 \<or> 2 powr (of_int q + 52) \<le> u" "q = 973 \<or> u < 2 powr (of_int q + 53)"
    using ulp_exponent_props [of u] by (simp_all add: q_def u)
  have q52: "- 52 \<le> q"
  proof (cases "q = 973")
    case False
    with p(2) have lt: "u < 2 powr (of_int q + 53)" by simp
    have "0 < (of_int q + 53 :: real)"
    proof (rule ccontr)
      assume "\<not> 0 < (of_int q + 53 :: real)"
      then have "(2::real) powr (of_int q + 53) \<le> 2 powr 0"
        by (intro powr_mono) simp_all
      with lt assms show False by simp
    qed
    then show ?thesis by linarith
  qed simp
  then have lo: "2 powr (of_int q + 52) \<le> u" using p(1) by auto
  have "(2::real) powr (of_int q + 52) / 2 powr of_int q = 2 powr 52"
    by (simp add: powr_add)
  then have "of_int (2 ^ 52) = (2::real) powr (of_int q + 52) / 2 powr of_int q"
    by simp
  also have "\<dots> \<le> u / 2 powr of_int q"
    using lo by (simp add: divide_right_mono)
  finally have "2 ^ 52 \<le> round_half_even (u / 2 powr of_int q)"
    by (rule round_half_even_ge)
  then have "(2::real) ^ 52 \<le> of_int (round_half_even (u / 2 powr of_int q))"
    by (metis of_int_le_iff of_int_numeral of_int_power)
  then have "2 ^ 52 * 2 powr of_int q \<le> rounded_magnitude u"
    by (simp add: rounded_magnitude_powr q_def u)
  moreover have "(2::real) ^ 52 * 2 powr of_int q = 2 powr (of_int q + 52)"
    by (simp add: powr_add)
  moreover have "(1::real) \<le> 2 powr (of_int q + 52)"
    using q52 by (intro ge_one_powr_ge_zero) simp_all
  ultimately have "1 \<le> rounded_magnitude u" by linarith
  then show ?thesis
    using u by (simp add: round64_def)
qed

lemma ulp_exponent_below_2_60: "ulp_exponent (2 ^ 60 - 1) = 7"
  using ulp_exponent_eqI [of 59 "2 ^ 60 - 1"] by simp

lemma round64_below_2_60: "round64 (2 ^ 60 - 1) = Fin (2 ^ 60)"
  by (simp add: round64_def rounded_magnitude_def ulp_exponent_below_2_60 [simplified]
      round_half_even_def)





text \<open>Values that the examples below compute with.\<close>

lemma round64_m2: "round64 (- 2) = Fin (- 2)"
  by (rule round64_exact [of "- 2" "- 2" 0]) simp_all

lemma round64_half: "round64 (1 / 2) = Fin (1 / 2)"
  by (rule round64_exact [of 1 "1 / 2" 1]) simp_all

lemmas round64_values = round64_0 round64_1 round64_2 round64_m1 round64_m2 round64_half

text \<open>Fractions with denominator \<open>2\<^sup>4\<^sup>0\<close> and a numerator below \<open>2\<^sup>5\<^sup>3\<close>.\<close>

lemma round64_dyadic:
  assumes "of_int \<lfloor>c * 2 ^ 40\<rfloor> = c * 2 ^ 40" "\<bar>\<lfloor>c * 2 ^ 40\<rfloor>\<bar> < 2 ^ 53"
  shows "round64 c = Fin c"
  using assms by (intro round64_exact [of "\<lfloor>c * 2 ^ 40\<rfloor>" c 40]) simp_all




lemma round64_below_2_60_numeral:
  "round64 1152921504606846975 = Fin 1152921504606846976"
  using round64_below_2_60 by simp

lemma round64_below_2_60_minus:
  "round64 (- 1152921504606846975) = Fin (- 1152921504606846976)"
  using round64_minus [of 1152921504606846975] by (simp add: round64_below_2_60_numeral)

lemma ulp_exponent_below_1e16: "ulp_exponent 9999999999999999 = 1"
  using ulp_exponent_eqI [of 53 9999999999999999] by simp

lemma round64_below_1e16: "round64 9999999999999999 = Fin 10000000000000000"
  by (simp add: round64_def rounded_magnitude_def ulp_exponent_below_1e16 round_half_even_def)

lemma round64_below_1e16_minus: "round64 (- 9999999999999999) = Fin (- 10000000000000000)"
  using round64_minus [of 9999999999999999] by (simp add: round64_below_1e16)

lemma round64_1e16: "round64 10000000000000000 = Fin 10000000000000000"
  by (rule round64_exact_large [of _ 152587890625 16]) simp_all

section \<open>Properties of Geometry\<close>

text \<open>
  Claim C7. \<^verbatim>\<open>contain(x, y)\<close> is true exactly when the point lies in the half-open
  rectangle: \<open>0 \<le> x < w\<close> and \<open>0 \<le> y < h\<close>, the integers read as signed 32-bit
  values. \<^verbatim>\<open>Geometry(4,2)\<close> contains \<open>(3,1)\<close> and does not contain \<open>(4,1)\<close>.
\<close>

theorem contain_half_open:
  "(contain g a b =
     (0 \<le> sint a \<and> sint a < sint (w g) \<and> 0 \<le> sint b \<and> sint b < sint (h g))) \<and>
   contain \<lparr>w = 4, h = 2\<rparr> 3 1 \<and>
   \<not> contain \<lparr>w = 4, h = 2\<rparr> 4 1"
  by (simp add: contain_def word_sle_eq word_sless_alt)

lemma to_real_t_exact: "to_real_t a = Fin (real_of_int (sint a))"
proof -
  have "- (2 ^ 31) \<le> sint a" "sint a < 2 ^ 31"
    using sint_ge [of a] sint_lt [of a] by simp_all
  then have "\<bar>sint a\<bar> < 2 ^ 53" by simp
  then show ?thesis
    unfolding to_real_t_def by (intro round64_exact [of "sint a" _ 0]) simp_all
qed

lemma sint_std_max: "sint (std_max a b) = max (sint a) (sint b)"
  by (simp add: std_max_def word_sless_alt max_def)

lemma sint_std_min: "sint (std_min a b) = min (sint a) (sint b)"
  by (simp add: std_min_def word_sless_alt min_def)

lemma rt_div_of_int:
  "m \<noteq> 0 \<Longrightarrow>
   rt_div (Fin (real_of_int k)) (Fin (real_of_int m)) = round64 (real_of_int k / real_of_int m)"
  by simp

lemma ratio_rounded:
  assumes "min (sint (w g)) (sint (h g)) \<noteq> 0"
  shows "ratio g = round64 (real_of_int (max (sint (w g)) (sint (h g))) /
                            real_of_int (min (sint (w g)) (sint (h g))))"
  unfolding ratio_def to_real_t_exact sint_std_max sint_std_min
  using assms by (rule rt_div_of_int)

text \<open>
  Claim C6, as the specification states it, fails: the members are signed and nothing keeps
  them positive. For \<^verbatim>\<open>Geometry(-4,-2)\<close> the smaller member is not zero and the ratio is
  one half.
\<close>

theorem ratio_below_one_counterexample:
  "std_min (w \<lparr>w = - 4, h = - 2\<rparr>) (h \<lparr>w = - 4, h = - 2\<rparr>) \<noteq> 0 \<and>
   ratio \<lparr>w = - 4, h = - 2\<rparr> = Fin (1 / 2) \<and>
   \<not> rt_ge (ratio \<lparr>w = - 4, h = - 2\<rparr>) (Fin 1)"
  by (simp add: ratio_def std_min_def std_max_def to_real_t_exact word_sless_alt round64_values)

text \<open>
  Claim C6, amended. When the smaller of \<open>w\<close> and \<open>h\<close> is not zero, \<^verbatim>\<open>ratio()\<close> is the
  quotient of the larger by the smaller as a real number, rounded to \<^verbatim>\<open>real_t\<close>: a finite
  value within half a unit in the last place of the quotient. When the smaller is
  positive, the ratio is at least 1. \<^verbatim>\<open>Geometry(4,2)\<close> has ratio 2 and area 8.
\<close>

theorem ratio_max_over_min:
  "(std_min (w g) (h g) \<noteq> 0 \<longrightarrow>
      ratio g = round64 (real_of_int (max (sint (w g)) (sint (h g))) /
                         real_of_int (min (sint (w g)) (sint (h g)))) \<and>
      (\<exists>v. ratio g = Fin v \<and>
           \<bar>v - real_of_int (max (sint (w g)) (sint (h g))) /
                  real_of_int (min (sint (w g)) (sint (h g)))\<bar>
           \<le> \<bar>real_of_int (max (sint (w g)) (sint (h g))) /
              real_of_int (min (sint (w g)) (sint (h g)))\<bar> / 2 ^ 53 + 1 / 2 ^ 1075)) \<and>
   (0 < min (sint (w g)) (sint (h g)) \<longrightarrow> rt_ge (ratio g) (Fin 1)) \<and>
   ratio \<lparr>w = 4, h = 2\<rparr> = Fin 2 \<and> area \<lparr>w = 4, h = 2\<rparr> = Some 8"
proof (intro conjI impI)
  assume "std_min (w g) (h g) \<noteq> 0"
  then have "sint (std_min (w g) (h g)) \<noteq> 0"
    by (simp add: signed_eq_0_iff)
  then have nz: "min (sint (w g)) (sint (h g)) \<noteq> 0"
    unfolding sint_std_min .
  then show "ratio g = round64 (real_of_int (max (sint (w g)) (sint (h g))) /
                     real_of_int (min (sint (w g)) (sint (h g))))"
    by (rule ratio_rounded)
  define q where "q = real_of_int (max (sint (w g)) (sint (h g))) /
                      real_of_int (min (sint (w g)) (sint (h g)))"
  have r: "ratio g = round64 q"
    unfolding q_def using nz by (rule ratio_rounded)
  have M: "\<bar>max (sint (w g)) (sint (h g))\<bar> \<le> 2 ^ 31"
    using sint_ge [of "w g"] sint_lt [of "w g"] sint_ge [of "h g"] sint_lt [of "h g"]
    by (auto simp add: max_def)
  have m: "1 \<le> \<bar>min (sint (w g)) (sint (h g))\<bar>"
    using nz by linarith
  have "\<bar>q\<bar> = \<bar>real_of_int (max (sint (w g)) (sint (h g)))\<bar> /
               \<bar>real_of_int (min (sint (w g)) (sint (h g)))\<bar>"
    by (simp add: q_def)
  also have "\<dots> \<le> \<bar>real_of_int (max (sint (w g)) (sint (h g)))\<bar> / 1"
    using m by (intro divide_left_mono) simp_all
  also have "\<dots> \<le> 2 ^ 31"
    using M by (metis div_by_1 of_int_abs of_int_le_numeral_power_cancel_iff)
  also have "\<dots> < (2::real) ^ 1023"
    by simp
  finally obtain v where v: "round64 q = Fin v"
    using round64_finite by blast
  then have "\<bar>v - q\<bar> \<le> \<bar>q\<bar> / 2 ^ 53 + 1 / 2 ^ 1075"
    by (rule round64_error)
  then show "\<exists>v. ratio g = Fin v \<and>
           \<bar>v - real_of_int (max (sint (w g)) (sint (h g))) /
                  real_of_int (min (sint (w g)) (sint (h g)))\<bar>
           \<le> \<bar>real_of_int (max (sint (w g)) (sint (h g))) /
              real_of_int (min (sint (w g)) (sint (h g)))\<bar> / 2 ^ 53 + 1 / 2 ^ 1075"
    using r v unfolding q_def by simp
next
  assume pos: "0 < min (sint (w g)) (sint (h g))"
  then have nz: "min (sint (w g)) (sint (h g)) \<noteq> 0"
    by linarith
  have le: "min (sint (w g)) (sint (h g)) \<le> max (sint (w g)) (sint (h g))"
    by simp
  have "1 \<le> real_of_int (max (sint (w g)) (sint (h g))) /
             real_of_int (min (sint (w g)) (sint (h g)))"
    using pos le by (simp only: le_divide_eq_1_pos of_int_0_less_iff of_int_le_iff)
  then have "round64 (real_of_int (max (sint (w g)) (sint (h g))) /
                      real_of_int (min (sint (w g)) (sint (h g)))) = PInf \<or>
             (\<exists>v. round64 (real_of_int (max (sint (w g)) (sint (h g))) /
                      real_of_int (min (sint (w g)) (sint (h g)))) = Fin v \<and> 1 \<le> v)"
    by (rule round64_ge_1)
  then show "rt_ge (ratio g) (Fin 1)"
    unfolding ratio_rounded [OF nz] by auto
next
  show "ratio \<lparr>w = 4, h = 2\<rparr> = Fin 2"
    by (simp add: ratio_def std_min_def std_max_def to_real_t_exact word_sless_alt round64_values)
next
  show "area \<lparr>w = 4, h = 2\<rparr> = Some 8"
    by (simp add: area_def)
qed

theorem ratio_max_over_min_witness:
  "std_min (w \<lparr>w = 3, h = 6\<rparr>) (h \<lparr>w = 3, h = 6\<rparr>) \<noteq> 0 \<and>
   0 < min (sint (w \<lparr>w = 3, h = 6\<rparr>)) (sint (h \<lparr>w = 3, h = 6\<rparr>)) \<and>
   ratio \<lparr>w = 3, h = 6\<rparr> = Fin 2 \<and> rt_ge (ratio \<lparr>w = 3, h = 6\<rparr>) (Fin 1)"
  using ratio_max_over_min [of "\<lparr>w = 3, h = 6\<rparr>"]
  by (simp add: std_min_def word_sless_alt round64_values)

section \<open>Vector: component access\<close>

text \<open>
  Claim C8. \<^verbatim>\<open>index(c)\<close> is \<open>x\<close> for \<open>c = 0\<close>, \<open>y\<close> for \<open>c = 1\<close> and \<open>z\<close> for every
  other \<open>c\<close>, with no bounds check. The overload that returns a reference names the same
  member: reading through it gives \<^verbatim>\<open>index(c)\<close>, and a value written through it is the
  value \<^verbatim>\<open>index(c)\<close> reads afterwards.
\<close>

theorem index_components:
  "index v 0 = x v \<and> index v 1 = y v \<and> (c \<noteq> 0 \<and> c \<noteq> 1 \<longrightarrow> index v c = z v) \<and>
   index_ref 0 = Member_x \<and> index_ref 1 = Member_y \<and>
   (c \<noteq> 0 \<and> c \<noteq> 1 \<longrightarrow> index_ref c = Member_z) \<and>
   deref v (index_ref c) = index v c \<and>
   index (assign v (index_ref c) a) c = a"
  by (simp add: index_def index_ref_def)

theorem index_components_witness:
  "((- 1 :: int32) \<noteq> 0 \<and> (- 1 :: int32) \<noteq> 1) \<and>
   index \<lparr>x = Fin 1, y = Fin 2, z = Fin 3\<rparr> (- 1) = Fin 3 \<and>
   index_ref (- 1) = Member_z \<and>
   index \<lparr>x = Fin 1, y = Fin 2, z = Fin 3\<rparr> 7 = Fin 3"
  using index_components [of "\<lparr>x = Fin 1, y = Fin 2, z = Fin 3\<rparr>" "- 1"]
        index_components [of "\<lparr>x = Fin 1, y = Fin 2, z = Fin 3\<rparr>" "7"]
  by simp

section \<open>Reflection\<close>

lemmas vector_ops = sqr_def dot_def mod_v_def op_add_def op_sub_def op_mul_def Vector_xyz_def
  Vector_xy_def rt_sub_def sqr_scalar_def



text \<open>
  Claim C4 does not hold of the code. The assertion of \<^verbatim>\<open>reflection\<close> takes the absolute
  value for its argument, \<^verbatim>\<open>fabs(v.sqr() - 1) < EPS\<close>, and not for \<^verbatim>\<open>*this\<close>, where it
  reads \<^verbatim>\<open>sqr() - 1 < EPS\<close>: a vector that is too short passes. With the zero vector as
  \<^verbatim>\<open>*this\<close> and the unit normal \<open>(0,0,1)\<close> the call does not abort and returns
  \<open>(0,0,-1)\<close>, although the squared length 0 differs from 1 by at least \<open>eps\<close>.
\<close>

theorem reflection_accepts_zero_vector:
  assumes "0 < eps" and "eps \<le> 1"
  shows "reflection eps (of_triple (0, 0, 0)) (of_triple (0, 0, 1)) = Some (of_triple (0, 0, - 1)) \<and>
         \<not> rt_lt (rt_fabs (rt_sub (sqr (of_triple (0, 0, 0))) (Fin 1))) (Fin eps)"
  using assms
  by (simp add: reflection_def m_assert_def vector_ops round64_values)

theorem reflection_accepts_zero_vector_witness:
  "(0::real) < 1 / 1000000 \<and> (1::real) / 1000000 \<le> 1 \<and>
   reflection (1 / 1000000) (of_triple (0, 0, 0)) (of_triple (0, 0, 1)) =
     Some (of_triple (0, 0, - 1)) \<and>
   sqr (of_triple (0, 0, 0)) = Fin 0"
  using reflection_accepts_zero_vector [of "1 / 1000000"]
  by (simp add: vector_ops round64_values)

section \<open>Normalization\<close>

lemma rt_mul_NaN_right: "rt_mul a NaN = NaN"
  by (cases a) simp_all

lemma rt_add_NaN_right: "rt_add a NaN = NaN"
  by (cases a) simp_all







section \<open>Transmission\<close>

text \<open>Either of the two conditions makes the code return the sentinel, whatever the arguments.\<close>

lemma transmission_failure:
  assumes "0 < eps"
    and "grazing_or_exiting eps this v_in \<or> total_internal_reflection this v_in density"
  shows "transmission eps this v_in density = Some infinity"
proof (cases "grazing_or_exiting eps this v_in")
  case True
  then show ?thesis
    by (simp add: transmission_def grazing_or_exiting_def Let_def)
next
  case False
  with assms(2) have tir: "total_internal_reflection this v_in density" by simp
  have ge: "rt_ge (rt_neg (dot this v_in)) (Fin 0)"
  proof (cases "rt_neg (dot this v_in)")
    case (Fin c)
    then show ?thesis using False assms(1) by (simp add: grazing_or_exiting_def)
  next
    case PInf
    then show ?thesis by simp
  next
    case NInf
    then show ?thesis using False by (simp add: grazing_or_exiting_def)
  next
    case NaN
    then show ?thesis using tir
      by (simp add: total_internal_reflection_def sqr_scalar_def rt_sub_def
          rt_mul_NaN_right rt_add_NaN_right)
  qed
  show ?thesis
    using False tir ge
    by (simp add: transmission_def grazing_or_exiting_def total_internal_reflection_def
        Let_def m_assert_def)
qed









section \<open>The sentinel\<close>

text \<open>
  Claim C3 does not hold of the code. \<^verbatim>\<open>Vector::infinity()\<close> passes two arguments to a
  constructor of three, so the third component keeps its default 0. With the normal
  \<open>(0,0,1)\<close> and the exiting direction \<open>(0,0,1)\<close>, \<^verbatim>\<open>transmission\<close> fails and returns a
  vector whose \<open>x\<close> and \<open>y\<close> are positive infinity and whose \<open>z\<close> is 0.
\<close>

theorem infinity_third_component_finite:
  "transmission (1 / 1000000) (of_triple (0, 0, 1)) (of_triple (0, 0, 1)) (Fin 1) = Some infinity \<and>
   grazing_or_exiting (1 / 1000000) (of_triple (0, 0, 1)) (of_triple (0, 0, 1)) \<and>
   x infinity = PInf \<and> y infinity = PInf \<and> z infinity = Fin 0 \<and> z infinity \<noteq> PInf"
  by (simp add: transmission_def grazing_or_exiting_def Let_def infinity_def vector_ops
      round64_values)

text \<open>
  Claim C10. \<^verbatim>\<open>isnoraml()\<close> is false on \<^verbatim>\<open>Vector::infinity()\<close>, although the third
  component of that vector is finite; and every call of \<^verbatim>\<open>transmission\<close> that fails, by
  either of its two tests, returns a vector on which \<^verbatim>\<open>isnoraml()\<close> is false.
\<close>

theorem isnoraml_detects_failure:
  "\<not> isnoraml infinity \<and> rt_isfinite (z infinity) \<and>
   (0 < eps \<longrightarrow>
    grazing_or_exiting eps this v_in \<or> total_internal_reflection this v_in density \<longrightarrow>
      (\<exists>r. transmission eps this v_in density = Some r \<and> \<not> isnoraml r))"
  by (simp add: transmission_failure)
     (simp add: infinity_def Vector_xy_def Vector_xyz_def isnoraml_def)

theorem isnoraml_detects_failure_witness:
  "(0::real) < 1 / 1000000 \<and>
   total_internal_reflection (of_triple (0, 0, 1))
     (of_triple (741455 / 1048576, 0, - (741455 / 1048576))) (Fin (1 / 2)) \<and>
   \<not> grazing_or_exiting (1 / 1000000) (of_triple (0, 0, 1))
     (of_triple (741455 / 1048576, 0, - (741455 / 1048576))) \<and>
   (\<exists>r. transmission (1 / 1000000) (of_triple (0, 0, 1))
          (of_triple (741455 / 1048576, 0, - (741455 / 1048576))) (Fin (1 / 2)) = Some r \<and>
        \<not> isnoraml r)"
proof -
  have t: "total_internal_reflection (of_triple (0, 0, 1))
     (of_triple (741455 / 1048576, 0, - (741455 / 1048576))) (Fin (1 / 2))"
    by (simp add: total_internal_reflection_def vector_ops round64_values round64_dyadic)
  have g: "\<not> grazing_or_exiting (1 / 1000000) (of_triple (0, 0, 1))
     (of_triple (741455 / 1048576, 0, - (741455 / 1048576)))"
    by (simp add: grazing_or_exiting_def vector_ops round64_values round64_dyadic)
  show ?thesis
    using isnoraml_detects_failure [of "1 / 1000000" "of_triple (0, 0, 1)"
          "of_triple (741455 / 1048576, 0, - (741455 / 1048576))" "Fin (1 / 2)"] t g
    by simp
qed

section \<open>The two-point constructor\<close>

text \<open>
  Claim C9, as the specification states it, fails: the two operations round. For
  \<open>p0 = (10\<^sup>1\<^sup>6, 0, 0)\<close> and \<open>p1 = (1, 0, 0)\<close> the difference \<open>1 - 10\<^sup>1\<^sup>6\<close> lies halfway
  between two binary64 numbers and rounds to \<open>-10\<^sup>1\<^sup>6\<close>; adding it back to \<open>p0\<close> gives the
  zero vector, which differs from \<open>p1\<close> by 1.
\<close>

theorem round_trip_absorption_counterexample:
  "op_add (of_triple (10000000000000000, 0, 0))
     (Vector_from (of_triple (10000000000000000, 0, 0)) (of_triple (1, 0, 0))) =
     of_triple (0, 0, 0) \<and>
   \<not> op_eq (1 / 1000000)
       (op_add (of_triple (10000000000000000, 0, 0))
          (Vector_from (of_triple (10000000000000000, 0, 0)) (of_triple (1, 0, 0))))
       (of_triple (1, 0, 0))"
  by (simp add: op_eq_def Vector_from_def vector_ops round64_values round64_below_1e16_minus
      round64_1e16)

text \<open>One coordinate of the round trip: three roundings, each within half a unit in the last place.\<close>

lemma round_trip_coordinate:
  assumes B: "1 \<le> B" "B < 2 ^ 1000" and a: "\<bar>a\<bar> \<le> B" and b: "\<bar>b\<bar> \<le> B"
    and eps: "B / 2 ^ 50 < eps"
  shows "rt_lt (rt_fabs (rt_sub (rt_add (Fin a) (rt_sub (Fin b) (Fin a))) (Fin b))) (Fin eps)"
proof -
  define e :: real where "e = B / 2 ^ 53"
  have e0: "0 < e" using B(1) by (simp add: e_def)
  have e1: "e \<le> B / 8" unfolding e_def using B(1) by (intro divide_left_mono) simp_all
  have tiny: "1 / 2 ^ 1075 \<le> e"
  proof -
    have "(1::real) / 2 ^ 1075 \<le> 1 / 2 ^ 53" by simp
    also have "\<dots> \<le> B / 2 ^ 53" using B(1) by (intro divide_right_mono) simp_all
    finally show ?thesis by (simp add: e_def)
  qed
  have big: "4 * B < 2 ^ 1023"
  proof -
    have "4 * B < 4 * 2 ^ 1000" using B(2) by simp
    also have "\<dots> < (2::real) ^ 1023" by simp
    finally show ?thesis .
  qed
  have scale: "\<bar>u\<bar> / 2 ^ 53 \<le> k * e" if "\<bar>u\<bar> \<le> k * B" for u k
  proof -
    have "\<bar>u\<bar> / 2 ^ 53 \<le> k * B / 2 ^ 53" using that by (intro divide_right_mono) simp_all
    then show ?thesis by (simp add: e_def)
  qed
  text \<open>the difference\<close>
  have d_in: "\<bar>b - a\<bar> \<le> 2 * B" using a b by linarith
  then have "\<bar>b - a\<bar> < 2 ^ 1023" using big B(1) by linarith
  then obtain d where d: "round64 (b - a) = Fin d"
    using round64_finite by blast
  have "\<bar>d - (b - a)\<bar> \<le> \<bar>b - a\<bar> / 2 ^ 53 + 1 / 2 ^ 1075"
    using d by (rule round64_error)
  then have d_err: "\<bar>d - (b - a)\<bar> \<le> 3 * e"
    using scale [OF d_in] tiny by linarith
  text \<open>the sum\<close>
  have s_in: "\<bar>a + d\<bar> \<le> 2 * B" using d_err b e1 B(1) by linarith
  then have "\<bar>a + d\<bar> < 2 ^ 1023" using big B(1) by linarith
  then obtain s where s: "round64 (a + d) = Fin s"
    using round64_finite by blast
  have "\<bar>s - (a + d)\<bar> \<le> \<bar>a + d\<bar> / 2 ^ 53 + 1 / 2 ^ 1075"
    using s by (rule round64_error)
  then have s_err: "\<bar>s - (a + d)\<bar> \<le> 3 * e"
    using scale [OF s_in] tiny by linarith
  text \<open>the comparison\<close>
  have f_in: "\<bar>s - b\<bar> \<le> 6 * e" using d_err s_err by linarith
  then have f_in': "\<bar>s - b\<bar> \<le> 1 * B" using e1 B(1) by linarith
  then have "\<bar>s - b\<bar> < 2 ^ 1023" using big B(1) by linarith
  then obtain f where f: "round64 (s - b) = Fin f"
    using round64_finite by blast
  have "\<bar>f - (s - b)\<bar> \<le> \<bar>s - b\<bar> / 2 ^ 53 + 1 / 2 ^ 1075"
    using f by (rule round64_error)
  then have "\<bar>f - (s - b)\<bar> \<le> 2 * e"
    using scale [OF f_in'] tiny by linarith
  then have "\<bar>f\<bar> \<le> 8 * e" using f_in by linarith
  moreover have "8 * e = B / 2 ^ 50" by (simp add: e_def)
  ultimately have "\<bar>f\<bar> < eps" using eps by linarith
  then show ?thesis
    by (simp add: rt_sub_def d s f)
qed

text \<open>
  Claim C9, amended. For points \<open>p0\<close> and \<open>p1\<close> whose coordinates are finite and at most
  \<open>B\<close> in magnitude, with \<open>1 \<le> B < 2\<^sup>1\<^sup>0\<^sup>0\<^sup>0\<close> and \<open>B / 2\<^sup>5\<^sup>0 < eps\<close>,
  \<^verbatim>\<open>p0 + Vector(p0, p1)\<close> equals \<open>p1\<close> within \<open>eps\<close> under \<^verbatim>\<open>operator ==\<close>.
\<close>

theorem round_trip_within_eps:
  assumes "1 \<le> B" and "B < 2 ^ 1000" and "B / 2 ^ 50 < eps"
    and "\<bar>a1\<bar> \<le> B" "\<bar>a2\<bar> \<le> B" "\<bar>a3\<bar> \<le> B"
    and "\<bar>b1\<bar> \<le> B" "\<bar>b2\<bar> \<le> B" "\<bar>b3\<bar> \<le> B"
  shows "op_eq eps
           (op_add (of_triple (a1, a2, a3))
              (Vector_from (of_triple (a1, a2, a3)) (of_triple (b1, b2, b3))))
           (of_triple (b1, b2, b3))"
  using round_trip_coordinate [OF assms(1,2) assms(4) assms(7) assms(3)]
    round_trip_coordinate [OF assms(1,2) assms(5) assms(8) assms(3)]
    round_trip_coordinate [OF assms(1,2) assms(6) assms(9) assms(3)]
  by (simp add: op_eq_def op_add_def Vector_from_def Vector_xyz_def)

theorem round_trip_within_eps_witness:
  "(1::real) \<le> 1024 \<and> (1024::real) < 2 ^ 1000 \<and> (1024::real) / 2 ^ 50 < 1 / 1000000 \<and>
   \<bar>3 / 4 :: real\<bar> \<le> 1024 \<and> \<bar>- 1000 :: real\<bar> \<le> 1024 \<and>
   op_eq (1 / 1000000)
     (op_add (of_triple (3 / 4, - 1000, 1 / 3))
        (Vector_from (of_triple (3 / 4, - 1000, 1 / 3)) (of_triple (1 / 7, 1000, - 1))))
     (of_triple (1 / 7, 1000, - 1))"
  using round_trip_within_eps [of 1024 "1 / 1000000" "3 / 4" "- 1000" "1 / 3" "1 / 7" 1000 "- 1"]
  by simp

end
